theory Spec2Isabelle
  imports Main "HOL-Library.Product_Lexorder" "HOL-Library.Multiset" "HOL-Library.Sublist"
begin

section \<open>A to-do list manager: the record store and its commands\<close>

text \<open>
  This development embeds \<^verbatim>\<open>src/todo.py\<close>: the class \<^verbatim>\<open>TodoItem\<close> and the class
  \<^verbatim>\<open>TodoManager\<close> with its load/save pair and its six commands. The interactive menu
  (\<^verbatim>\<open>main\<close>, \<^verbatim>\<open>display_todos\<close>) only calls the manager and is not modelled.

  Conventions of the embedding:
  \<^item> Python's unbounded \<^verbatim>\<open>int\<close> is \<^typ>\<open>int\<close>. A \<^verbatim>\<open>str\<close> is the list of its code
    points, \<open>pystr\<close>, so that text outside ASCII, lone surrogates included, is a
    string of the model; \<^verbatim>\<open>Optional[str]\<close> is \<open>pystr option\<close> with \<^verbatim>\<open>None\<close> as
    \<^term>\<open>None\<close>.
  \<^item> \<^verbatim>\<open>datetime.now().strftime(...)\<close> is an argument \<open>now\<close> of the functions that read
    the clock.
  \<^item> The file named by \<^verbatim>\<open>self.filename\<close> is a component of the state. What \<^verbatim>\<open>json.load\<close>
    makes of its text is given, not computed: either the text is not JSON
    (\<^verbatim>\<open>JSONDecodeError\<close>) or it denotes a JSON value. What \<^verbatim>\<open>json.load\<close> reads back from
    the text \<^verbatim>\<open>json.dump\<close> wrote is computed by \<open>dump_load\<close> below: the value written,
    except that in every string a surrogate pair has become one code point. JSON numbers
    with a fraction or an exponent are left out of the value type. Writing the file is
    taken to succeed.
  \<^item> The commands are modelled on arguments of the types their signatures declare.
    \<^verbatim>\<open>load_todos\<close> is modelled on every JSON value, and so it returns records whose
    fields hold whatever Python value the file gave them.
\<close>

subsection \<open>Strings\<close>

text \<open>A Python string: the list of its code points. \<open>str\<close> reads an ASCII literal.\<close>

type_synonym pystr = "nat list"

definition str :: "string \<Rightarrow> pystr" where
  "str s = map of_char s"

text \<open>
  \<^verbatim>\<open>str.lower\<close> on the ASCII letters A to Z. Letters outside ASCII are left as they are,
  which Python does not do; the three priority words are ASCII, and no string with a
  character outside ASCII has one of them as its lower case.
\<close>

definition lower_char :: "nat \<Rightarrow> nat" where
  "lower_char c = (if 65 \<le> c \<and> c \<le> 90 then c + 32 else c)"

definition lower :: "pystr \<Rightarrow> pystr" where
  "lower s = map lower_char s"

subsection \<open>TodoItem\<close>

record todo_item =
  item_id :: "int option"
  task :: pystr
  completed :: bool
  priority :: pystr
  created_at :: pystr
  due_date :: "pystr option"
  completed_at :: "pystr option"

text \<open>\<^verbatim>\<open>TodoItem.__init__\<close>: the id is \<^verbatim>\<open>None\<close> until the manager assigns it.\<close>

definition TodoItem :: "pystr \<Rightarrow> pystr \<Rightarrow> pystr option \<Rightarrow> pystr \<Rightarrow> todo_item" where
  "TodoItem tsk prio due now =
     \<lparr>item_id = None, task = tsk, completed = False, priority = lower prio,
      created_at = now, due_date = due, completed_at = None\<rparr>"

subsection \<open>JSON values and the file\<close>

datatype json =
    JNull
  | JBool bool
  | JInt int
  | JStr pystr
  | JList "json list"
  | JObj "(pystr \<times> json) list"

text \<open>
  A \<^term>\<open>JObj\<close> is a Python dict in the order of its keys; a key is looked up with
  \<^const>\<open>map_of\<close>. The content of the file is either text that \<^verbatim>\<open>json.load\<close> rejects
  with \<^verbatim>\<open>JSONDecodeError\<close>, or the JSON value it returns.
\<close>

datatype file_content = NotJson | Document json

definition json_of_int_option :: "int option \<Rightarrow> json" where
  "json_of_int_option v = (case v of None \<Rightarrow> JNull | Some i \<Rightarrow> JInt i)"

definition json_of_str_option :: "pystr option \<Rightarrow> json" where
  "json_of_str_option v = (case v of None \<Rightarrow> JNull | Some s \<Rightarrow> JStr s)"

definition to_dict :: "todo_item \<Rightarrow> json" where
  "to_dict t =
     JObj [(str ''id'', json_of_int_option (item_id t)),
           (str ''task'', JStr (task t)),
           (str ''completed'', JBool (completed t)),
           (str ''priority'', JStr (priority t)),
           (str ''created_at'', JStr (created_at t)),
           (str ''due_date'', json_of_str_option (due_date t)),
           (str ''completed_at'', json_of_str_option (completed_at t))]"

subsection \<open>TodoManager: state and persistence\<close>

record manager =
  todos :: "todo_item list"
  next_id :: int

text \<open>
  The manager together with its file. \<open>disk\<close> is \<^term>\<open>None\<close> when the file does not
  exist. \<open>writes\<close> counts the calls of \<^verbatim>\<open>save_todos\<close>, so that a persist is visible even
  when it rewrites the file with the content it already had.
\<close>

record world =
  mgr :: manager
  disk :: "file_content option"
  writes :: nat

text \<open>
  The JSON text of a string and its reading. \<^verbatim>\<open>json.dump\<close> (with its default
  \<^verbatim>\<open>ensure_ascii\<close>) writes every code point outside ASCII as an escape of four hex
  digits, and a code point above U+FFFF as two of them, its surrogate pair.
  \<^verbatim>\<open>json.load\<close> reads an escape in U+D800..U+DBFF that is followed by an escape in
  U+DC00..U+DFFF as the one code point the two encode, and every other escape as itself.
  So a string comes back with each high surrogate that stood before a low surrogate
  joined with it, scanning from the left, and is otherwise unchanged.
\<close>

definition is_high_surrogate :: "nat \<Rightarrow> bool" where
  "is_high_surrogate c = (55296 \<le> c \<and> c \<le> 56319)"

definition is_low_surrogate :: "nat \<Rightarrow> bool" where
  "is_low_surrogate c = (56320 \<le> c \<and> c \<le> 57343)"

fun join_surrogates :: "pystr \<Rightarrow> pystr" where
  "join_surrogates (h # l # cs) =
     (if is_high_surrogate h \<and> is_low_surrogate l
      then (65536 + (h - 55296) * 1024 + (l - 56320)) # join_surrogates cs
      else h # join_surrogates (l # cs))"
| "join_surrogates cs = cs"

text \<open>
  The value \<^verbatim>\<open>json.load\<close> reads back from the text \<^verbatim>\<open>json.dump\<close> wrote for a value:
  integers, booleans and \<^verbatim>\<open>None\<close> come back as they were, strings and keys as above.
\<close>

fun dump_load :: "json \<Rightarrow> json" where
  "dump_load (JStr s) = JStr (join_surrogates s)"
| "dump_load (JList xs) = JList (map dump_load xs)"
| "dump_load (JObj kvs) = JObj (map (map_prod join_surrogates dump_load) kvs)"
| "dump_load v = v"

definition save_data :: "manager \<Rightarrow> json" where
  "save_data m =
     JObj [(str ''todos'', JList (map to_dict (todos m))), (str ''next_id'', JInt (next_id m))]"

text \<open>
  \<^verbatim>\<open>save_todos\<close> overwrites the file with the text of \<^verbatim>\<open>data\<close>; from then on the file
  holds what \<^verbatim>\<open>json.load\<close> reads from that text.
\<close>

definition save_todos :: "world \<Rightarrow> world" where
  "save_todos w =
     w\<lparr>disk := Some (Document (dump_load (save_data (mgr w)))), writes := Suc (writes w)\<rparr>"

subsection \<open>Loading\<close>

datatype error = JSONDecodeError | KeyError pystr | AttributeError | TypeError

definition sbind :: "error + 'a \<Rightarrow> ('a \<Rightarrow> error + 'b) \<Rightarrow> error + 'b" where
  "sbind r f = (case r of Inl e \<Rightarrow> Inl e | Inr v \<Rightarrow> f v)"

fun smap :: "('a \<Rightarrow> error + 'b) \<Rightarrow> 'a list \<Rightarrow> error + 'b list" where
  "smap f [] = Inr []"
| "smap f (x # xs) = sbind (f x) (\<lambda>y. sbind (smap f xs) (\<lambda>ys. Inr (y # ys)))"

text \<open>\<^verbatim>\<open>data[k]\<close>: only a dict can be indexed by a string.\<close>

definition subscript :: "json \<Rightarrow> pystr \<Rightarrow> error + json" where
  "subscript data k =
     (case data of
        JObj kvs \<Rightarrow> (case map_of kvs k of None \<Rightarrow> Inl (KeyError k) | Some v \<Rightarrow> Inr v)
      | _ \<Rightarrow> Inl TypeError)"

text \<open>\<^verbatim>\<open>data.get(k, default)\<close>: only a dict has the method.\<close>

definition dict_get :: "json \<Rightarrow> pystr \<Rightarrow> json \<Rightarrow> error + json" where
  "dict_get data k dflt =
     (case data of
        JObj kvs \<Rightarrow> Inr (case map_of kvs k of None \<Rightarrow> dflt | Some v \<Rightarrow> v)
      | _ \<Rightarrow> Inl AttributeError)"

text \<open>\<^verbatim>\<open>v.lower()\<close>: only a string has the method.\<close>

definition str_lower :: "json \<Rightarrow> error + pystr" where
  "str_lower v = (case v of JStr s \<Rightarrow> Inr (lower s) | _ \<Rightarrow> Inl AttributeError)"

text \<open>
  \<^verbatim>\<open>for item in v\<close>: a list gives its elements, a string its characters, a dict its
  keys; nothing else can be iterated.
\<close>

definition iterate :: "json \<Rightarrow> error + json list" where
  "iterate v =
     (case v of
        JList xs \<Rightarrow> Inr xs
      | JStr s \<Rightarrow> Inr (map (\<lambda>c. JStr [c]) s)
      | JObj kvs \<Rightarrow> Inr (map (\<lambda>kv. JStr (fst kv)) kvs)
      | _ \<Rightarrow> Inl TypeError)"

text \<open>
  A record as \<^verbatim>\<open>from_dict\<close> builds it. Only the priority has passed through
  \<^verbatim>\<open>str.lower\<close>; the other fields are copied from the file unchecked.
\<close>

record loaded_item =
  l_id :: json
  l_task :: json
  l_completed :: json
  l_priority :: pystr
  l_created_at :: json
  l_due_date :: json
  l_completed_at :: json

record loaded_manager =
  l_todos :: "loaded_item list"
  l_next_id :: json

text \<open>
  \<^verbatim>\<open>TodoItem.from_dict\<close>: the three constructor arguments are looked up first, then the
  constructor lower-cases the priority, then the four remaining keys are looked up.
\<close>

definition from_dict :: "json \<Rightarrow> error + loaded_item" where
  "from_dict data =
     sbind (subscript data (str ''task'')) (\<lambda>tsk.
     sbind (subscript data (str ''priority'')) (\<lambda>prio.
     sbind (subscript data (str ''due_date'')) (\<lambda>due.
     sbind (str_lower prio) (\<lambda>p.
     sbind (subscript data (str ''id'')) (\<lambda>i.
     sbind (subscript data (str ''completed'')) (\<lambda>c.
     sbind (subscript data (str ''created_at'')) (\<lambda>ca.
     sbind (subscript data (str ''completed_at'')) (\<lambda>cpa.
       Inr \<lparr>l_id = i, l_task = tsk, l_completed = c, l_priority = p,
            l_created_at = ca, l_due_date = due, l_completed_at = cpa\<rparr>))))))))"

text \<open>
  \<^verbatim>\<open>load_todos\<close>, given the file and the manager's fields before the call. \<^term>\<open>Inl e\<close>
  is the exception \<open>e\<close> leaving the method: the handler catches \<^verbatim>\<open>JSONDecodeError\<close>
  (and \<^verbatim>\<open>FileNotFoundError\<close>) only.
\<close>

definition load_todos :: "file_content option \<Rightarrow> loaded_manager \<Rightarrow> error + loaded_manager" where
  "load_todos f m =
     (case f of
        None \<Rightarrow> Inr m
      | Some NotJson \<Rightarrow> Inr \<lparr>l_todos = [], l_next_id = JInt 1\<rparr>
      | Some (Document data) \<Rightarrow>
          sbind (dict_get data (str ''todos'') (JList [])) (\<lambda>ts.
          sbind (iterate ts) (\<lambda>items.
          sbind (smap from_dict items) (\<lambda>tds.
          sbind (dict_get data (str ''next_id'') (JInt 1)) (\<lambda>n.
            Inr \<lparr>l_todos = tds, l_next_id = n\<rparr>)))))"

text \<open>\<^verbatim>\<open>TodoManager.__init__\<close>: an empty list, the counter at 1, then \<^verbatim>\<open>load_todos\<close>.\<close>

definition TodoManager :: "file_content option \<Rightarrow> error + loaded_manager" where
  "TodoManager f = load_todos f \<lparr>l_todos = [], l_next_id = JInt 1\<rparr>"

text \<open>The typed records of the commands, seen as loaded records.\<close>

definition as_loaded_item :: "todo_item \<Rightarrow> loaded_item" where
  "as_loaded_item t =
     \<lparr>l_id = json_of_int_option (item_id t), l_task = JStr (task t),
      l_completed = JBool (completed t), l_priority = priority t,
      l_created_at = JStr (created_at t), l_due_date = json_of_str_option (due_date t),
      l_completed_at = json_of_str_option (completed_at t)\<rparr>"

definition as_loaded :: "manager \<Rightarrow> loaded_manager" where
  "as_loaded m = \<lparr>l_todos = map as_loaded_item (todos m), l_next_id = JInt (next_id m)\<rparr>"

subsection \<open>Commands\<close>

definition valid_priorities :: "pystr list" where
  "valid_priorities = [str ''low'', str ''medium'', str ''high'']"

text \<open>The truth value Python gives an \<^verbatim>\<open>Optional[str]\<close>: false for \<^verbatim>\<open>None\<close> and for \<^verbatim>\<open>""\<close>.\<close>

definition truthy :: "pystr option \<Rightarrow> bool" where
  "truthy v = (case v of None \<Rightarrow> False | Some s \<Rightarrow> s \<noteq> [])"

text \<open>\<^verbatim>\<open>add_todo\<close> returns \<^verbatim>\<open>todo.id\<close>, the value the counter had on entry.\<close>

definition add_todo :: "world \<Rightarrow> pystr \<Rightarrow> pystr \<Rightarrow> pystr option \<Rightarrow> pystr \<Rightarrow> int \<times> world" where
  "add_todo w tsk prio due now =
     (let prio' = (if prio \<notin> set valid_priorities then str ''medium'' else prio);
          todo = (TodoItem tsk prio' due now)\<lparr>item_id := Some (next_id (mgr w))\<rparr>;
          m' = \<lparr>todos = todos (mgr w) @ [todo], next_id = next_id (mgr w) + 1\<rparr>
      in (next_id (mgr w), save_todos (w\<lparr>mgr := m'\<rparr>)))"

text \<open>
  The loop of \<^verbatim>\<open>remove_todo\<close>: delete the first record whose id is \<open>i\<close>;
  \<^term>\<open>None\<close> when the loop ends without a match.
\<close>

fun remove_first :: "int \<Rightarrow> todo_item list \<Rightarrow> todo_item list option" where
  "remove_first i [] = None"
| "remove_first i (t # ts) =
     (if item_id t = Some i then Some ts else map_option ((#) t) (remove_first i ts))"

definition remove_todo :: "world \<Rightarrow> int \<Rightarrow> bool \<times> world" where
  "remove_todo w i =
     (case remove_first i (todos (mgr w)) of
        None \<Rightarrow> (False, w)
      | Some ts \<Rightarrow> (True, save_todos (w\<lparr>mgr := (mgr w)\<lparr>todos := ts\<rparr>\<rparr>)))"

text \<open>
  The loop shared by \<^verbatim>\<open>complete_todo\<close>, \<^verbatim>\<open>uncomplete_todo\<close> and \<^verbatim>\<open>update_todo\<close>:
  change the first record whose id is \<open>i\<close> in place; \<^term>\<open>None\<close> when there is none.
\<close>

fun mutate_first :: "(todo_item \<Rightarrow> todo_item) \<Rightarrow> int \<Rightarrow> todo_item list \<Rightarrow> todo_item list option" where
  "mutate_first g i [] = None"
| "mutate_first g i (t # ts) =
     (if item_id t = Some i then Some (g t # ts) else map_option ((#) t) (mutate_first g i ts))"

definition mutate_todo :: "(todo_item \<Rightarrow> todo_item) \<Rightarrow> world \<Rightarrow> int \<Rightarrow> bool \<times> world" where
  "mutate_todo g w i =
     (case mutate_first g i (todos (mgr w)) of
        None \<Rightarrow> (False, w)
      | Some ts \<Rightarrow> (True, save_todos (w\<lparr>mgr := (mgr w)\<lparr>todos := ts\<rparr>\<rparr>)))"

definition complete_todo :: "world \<Rightarrow> int \<Rightarrow> pystr \<Rightarrow> bool \<times> world" where
  "complete_todo w i now =
     mutate_todo (\<lambda>t. t\<lparr>completed := True, completed_at := Some now\<rparr>) w i"

definition uncomplete_todo :: "world \<Rightarrow> int \<Rightarrow> bool \<times> world" where
  "uncomplete_todo w i =
     mutate_todo (\<lambda>t. t\<lparr>completed := False, completed_at := None\<rparr>) w i"

text \<open>The three \<^verbatim>\<open>if\<close> statements of \<^verbatim>\<open>update_todo\<close>, in their order.\<close>

definition apply_update :: "pystr option \<Rightarrow> pystr option \<Rightarrow> pystr option \<Rightarrow> todo_item \<Rightarrow> todo_item" where
  "apply_update tsk prio due t =
     (let t1 = (case tsk of
                  Some s \<Rightarrow> if s \<noteq> [] then t\<lparr>task := s\<rparr> else t
                | None \<Rightarrow> t);
          t2 = (case prio of
                  Some p \<Rightarrow> if p \<noteq> [] \<and> lower p \<in> set valid_priorities
                            then t1\<lparr>priority := lower p\<rparr> else t1
                | None \<Rightarrow> t1);
          t3 = (case due of
                  Some d \<Rightarrow> t2\<lparr>due_date := Some d\<rparr>
                | None \<Rightarrow> t2)
      in t3)"

definition update_todo :: "world \<Rightarrow> int \<Rightarrow> pystr option \<Rightarrow> pystr option \<Rightarrow> pystr option \<Rightarrow> bool \<times> world" where
  "update_todo w i tsk prio due = mutate_todo (apply_update tsk prio due) w i"

subsection \<open>Listing\<close>

definition filtered_todos :: "bool \<Rightarrow> pystr option \<Rightarrow> manager \<Rightarrow> todo_item list" where
  "filtered_todos show_completed priority_filter m =
     (let xs = todos m;
          xs1 = (if \<not> show_completed then filter (\<lambda>t. \<not> completed t) xs else xs);
          xs2 = (case priority_filter of
                   Some p \<Rightarrow> if p \<noteq> [] then filter (\<lambda>t. priority t = lower p) xs1 else xs1
                 | None \<Rightarrow> xs1)
      in xs2)"

text \<open>
  The key of the sort: a tuple of three booleans, compared lexicographically with
  \<^verbatim>\<open>False < True\<close>.
\<close>

definition list_key :: "todo_item \<Rightarrow> bool \<times> bool \<times> bool" where
  "list_key x = (completed x, priority x \<noteq> str ''high'', priority x \<noteq> str ''medium'')"

text \<open>
  Python's \<^verbatim>\<open>sorted\<close> is a stable sort by the key; \<^const>\<open>sort_key\<close> is the stable
  insertion sort of the library, and a stable sort has only one result.
\<close>

definition get_todos :: "bool \<Rightarrow> pystr option \<Rightarrow> manager \<Rightarrow> todo_item list" where
  "get_todos show_completed priority_filter m =
     sort_key list_key (filtered_todos show_completed priority_filter m)"

subsection \<open>Sequences of commands\<close>

datatype command =
    Add pystr pystr "pystr option"
  | Remove int
  | Complete int
  | Uncomplete int
  | Update int "pystr option" "pystr option" "pystr option"

datatype outcome = NewId int | Found bool

text \<open>One command, issued when the clock reads \<open>now\<close>.\<close>

fun exec :: "pystr \<Rightarrow> command \<Rightarrow> world \<Rightarrow> outcome \<times> world" where
  "exec now (Add tsk prio due) w = map_prod NewId (\<lambda>w'. w') (add_todo w tsk prio due now)"
| "exec now (Remove i) w = map_prod Found (\<lambda>w'. w') (remove_todo w i)"
| "exec now (Complete i) w = map_prod Found (\<lambda>w'. w') (complete_todo w i now)"
| "exec now (Uncomplete i) w = map_prod Found (\<lambda>w'. w') (uncomplete_todo w i)"
| "exec now (Update i tsk prio due) w = map_prod Found (\<lambda>w'. w') (update_todo w i tsk prio due)"

fun run :: "(pystr \<times> command) list \<Rightarrow> world \<Rightarrow> outcome list \<times> world" where
  "run [] w = ([], w)"
| "run ((now, c) # es) w =
     (let (r, w1) = exec now c w; (rs, w2) = run es w1 in (r # rs, w2))"

text \<open>The ids handed out by the \<^verbatim>\<open>add_todo\<close> calls of a run, in the order of the calls.\<close>

fun added_ids :: "outcome list \<Rightarrow> int list" where
  "added_ids [] = []"
| "added_ids (NewId i # rs) = i # added_ids rs"
| "added_ids (Found b # rs) = added_ids rs"

text \<open>
  The initial store: the manager as \<^verbatim>\<open>__init__\<close> leaves it when there is nothing to load,
  beside a file in any condition.
\<close>

definition initial :: "file_content option \<Rightarrow> world" where
  "initial d = \<lparr>mgr = \<lparr>todos = [], next_id = 1\<rparr>, disk = d, writes = 0\<rparr>"

subsection \<open>Notions used to state the properties\<close>

text \<open>The record a command with id \<open>i\<close> acts on: the first one in the list with that id.\<close>

definition find_todo :: "int \<Rightarrow> todo_item list \<Rightarrow> todo_item option" where
  "find_todo i ts = find (\<lambda>t. item_id t = Some i) ts"

text \<open>A record is consistent when it has a completion time exactly when it is completed.\<close>

definition consistent :: "todo_item \<Rightarrow> bool" where
  "consistent t = ((completed_at t \<noteq> None) = completed t)"

definition all_consistent :: "world \<Rightarrow> bool" where
  "all_consistent w = list_all consistent (todos (mgr w))"

text \<open>
  The order of the listing in the words of the specification: pending before completed,
  then high before medium before low. A priority outside the three values, which no
  command stores, ranks with low.
\<close>

definition priority_rank :: "pystr \<Rightarrow> nat" where
  "priority_rank p = (if p = str ''high'' then 0 else if p = str ''medium'' then 1 else 2)"

definition list_rank :: "todo_item \<Rightarrow> nat \<times> nat" where
  "list_rank t = (if completed t then 1 else 0, priority_rank (priority t))"

text \<open>
  A string has a surrogate pair when a code point in U+D800..U+DBFF stands right before
  one in U+DC00..U+DFFF. A record is pair free when none of its free-text fields
  (description, creation time, due date, completion time) has one.
\<close>

fun has_surrogate_pair :: "pystr \<Rightarrow> bool" where
  "has_surrogate_pair (h # l # cs) =
     ((is_high_surrogate h \<and> is_low_surrogate l) \<or> has_surrogate_pair (l # cs))"
| "has_surrogate_pair cs = False"

definition pair_free :: "todo_item \<Rightarrow> bool" where
  "pair_free t =
     (\<not> has_surrogate_pair (task t) \<and> \<not> has_surrogate_pair (created_at t)
      \<and> (case due_date t of None \<Rightarrow> True | Some s \<Rightarrow> \<not> has_surrogate_pair s)
      \<and> (case completed_at t of None \<Rightarrow> True | Some s \<Rightarrow> \<not> has_surrogate_pair s))"

text \<open>A record with the surrogate pairs of its strings joined.\<close>

definition joined_item :: "todo_item \<Rightarrow> todo_item" where
  "joined_item t =
     t\<lparr>task := join_surrogates (task t), priority := join_surrogates (priority t),
       created_at := join_surrogates (created_at t),
       due_date := map_option join_surrogates (due_date t),
       completed_at := map_option join_surrogates (completed_at t)\<rparr>"

definition joined :: "manager \<Rightarrow> manager" where
  "joined m = m\<lparr>todos := map joined_item (todos m)\<rparr>"

text \<open>
  Test data: the four records of the ordering example of the specification, and a store
  holding one record with a due date.
\<close>

definition example_item :: "int \<Rightarrow> pystr \<Rightarrow> bool \<Rightarrow> todo_item" where
  "example_item i p c =
     \<lparr>item_id = Some i, task = str ''t'', completed = c, priority = p,
      created_at = str ''2024-01-01 09:00:00'', due_date = None,
      completed_at = (if c then Some (str ''2024-01-02 09:00:00'') else None)\<rparr>"

definition example_world :: world where
  "example_world =
     \<lparr>mgr = \<lparr>todos = [example_item 1 (str ''low'') False, example_item 2 (str ''high'') True,
                     example_item 3 (str ''medium'') False, example_item 4 (str ''high'') False],
             next_id = 5\<rparr>,
      disk = None, writes = 0\<rparr>"

definition dated_item :: todo_item where
  "dated_item =
     \<lparr>item_id = Some 1, task = str ''Buy milk'', completed = False, priority = str ''high'',
      created_at = str ''2024-01-01 09:00:00'', due_date = Some (str ''2024-01-01''),
      completed_at = None\<rparr>"

definition dated_world :: world where
  "dated_world = \<lparr>mgr = \<lparr>todos = [dated_item], next_id = 2\<rparr>, disk = None, writes = 0\<rparr>"

section \<open>Properties\<close>

subsection \<open>Elementary facts\<close>

lemma str_eq_iff [simp]: "(str a = str b) = (a = b)"
  by (simp add: str_def inj_map_eq_map inj_on_def)

lemma str_Nil [simp]: "str [] = []" "(str a = []) = (a = [])" "([] = str a) = (a = [])"
  by (auto simp: str_def)

lemma lower_valid: "p \<in> set valid_priorities \<Longrightarrow> lower p = p"
  by (auto simp: valid_priorities_def lower_def lower_char_def str_def)

lemma lower_idem: "lower (lower s) = lower s"
  by (simp add: lower_def lower_char_def Let_def)

lemma mgr_save_todos [simp]: "mgr (save_todos w) = mgr w"
  by (simp add: save_todos_def)

lemma next_id_mutate: "next_id (mgr (snd (mutate_todo g w i))) = next_id (mgr w)"
  by (simp add: mutate_todo_def split: option.splits)

lemma next_id_remove: "next_id (mgr (snd (remove_todo w i))) = next_id (mgr w)"
  by (simp add: remove_todo_def split: option.splits)

lemma add_todo_result:
  "fst (add_todo w tsk prio due now) = next_id (mgr w)"
  "next_id (mgr (snd (add_todo w tsk prio due now))) = next_id (mgr w) + 1"
  by (simp_all add: add_todo_def Let_def)

lemma run_Cons:
  "run ((now, c) # es) w =
     (fst (exec now c w) # fst (run es (snd (exec now c w))), snd (run es (snd (exec now c w))))"
  by (simp split: prod.splits)

subsection \<open>The loops over the list of records\<close>

lemma find_todo_None: "(find_todo i ts = None) = (Some i \<notin> item_id ` set ts)"
  by (induction ts) (auto simp: find_todo_def)

lemma find_todo_Cons:
  "find_todo i (t # ts) = (if item_id t = Some i then Some t else find_todo i ts)"
  by (simp add: find_todo_def)

lemma find_todo_Nil: "find_todo i [] = None"
  by (simp add: find_todo_def)

lemma mutate_first_None: "find_todo i ts = None \<Longrightarrow> mutate_first g i ts = None"
  by (induction ts) (simp_all add: find_todo_Cons split: if_splits)

lemma remove_first_None: "find_todo i ts = None \<Longrightarrow> remove_first i ts = None"
  by (induction ts) (simp_all add: find_todo_Cons split: if_splits)

lemma mutate_first_Some:
  "find_todo i ts = Some t \<Longrightarrow> \<exists>ts'. mutate_first g i ts = Some ts'"
  by (induction ts) (auto simp: find_todo_Cons find_todo_Nil split: if_splits)

lemma mutate_first_find:
  "mutate_first g i ts = Some ts' \<Longrightarrow> item_id (g t) = item_id t \<Longrightarrow> find_todo i ts = Some t
     \<Longrightarrow> find_todo i ts' = Some (g t)"
  by (induction ts arbitrary: ts') (auto simp: find_todo_Cons find_todo_Nil split: if_splits)

lemma mutate_first_id:
  "mutate_first g i ts = Some ts' \<Longrightarrow> (\<And>t. g t = t) \<Longrightarrow> ts' = ts"
  by (induction ts arbitrary: ts') (auto split: if_splits)

lemma mutate_first_list_all:
  "mutate_first g i ts = Some ts' \<Longrightarrow> list_all P ts \<Longrightarrow> (\<And>t. P t \<Longrightarrow> P (g t)) \<Longrightarrow> list_all P ts'"
  by (induction ts arbitrary: ts') (auto split: if_splits)

lemma remove_first_list_all:
  "remove_first i ts = Some ts' \<Longrightarrow> list_all P ts \<Longrightarrow> list_all P ts'"
  by (induction ts arbitrary: ts') (auto split: if_splits)

lemma mutate_todo_list_all:
  assumes "list_all P (todos (mgr w))" and "\<And>t. P t \<Longrightarrow> P (g t)"
  shows "list_all P (todos (mgr (snd (mutate_todo g w i))))"
  using assms by (auto simp: mutate_todo_def split: option.splits dest: mutate_first_list_all)

lemma remove_todo_list_all:
  "list_all P (todos (mgr w)) \<Longrightarrow> list_all P (todos (mgr (snd (remove_todo w i))))"
  by (auto simp: remove_todo_def split: option.splits dest: remove_first_list_all)

lemma add_todo_todos:
  "todos (mgr (snd (add_todo w tsk prio due now))) =
     todos (mgr w) @
     [\<lparr>item_id = Some (next_id (mgr w)), task = tsk, completed = False,
       priority = (if prio \<in> set valid_priorities then prio else str ''medium''),
       created_at = now, due_date = due, completed_at = None\<rparr>]"
  by (simp add: add_todo_def Let_def TodoItem_def lower_valid)
     (simp add: lower_valid valid_priorities_def)

lemma mutate_todo_found:
  assumes "find_todo i (todos (mgr w)) = Some t" and "item_id (g t) = item_id t"
  shows "fst (mutate_todo g w i) \<and> find_todo i (todos (mgr (snd (mutate_todo g w i)))) = Some (g t)"
proof -
  obtain ts' where m: "mutate_first g i (todos (mgr w)) = Some ts'"
    using mutate_first_Some [OF assms(1)] by blast
  then have "find_todo i ts' = Some (g t)" using assms mutate_first_find by blast
  with m show ?thesis by (simp add: mutate_todo_def)
qed

lemma mutate_todo_absent:
  "find_todo i (todos (mgr w)) = None \<Longrightarrow> mutate_todo g w i = (False, w)"
  by (simp add: mutate_todo_def mutate_first_None)

lemma exec_list_all:
  assumes "list_all P (todos (mgr w))"
    and "\<And>tsk prio due. P \<lparr>item_id = Some (next_id (mgr w)), task = tsk, completed = False,
       priority = (if prio \<in> set valid_priorities then prio else str ''medium''),
       created_at = now, due_date = due, completed_at = None\<rparr>"
    and "\<And>t. P t \<Longrightarrow> P (t\<lparr>completed := True, completed_at := Some now\<rparr>)"
    and "\<And>t. P t \<Longrightarrow> P (t\<lparr>completed := False, completed_at := None\<rparr>)"
    and "\<And>t tsk prio due. P t \<Longrightarrow> P (apply_update tsk prio due t)"
  shows "list_all P (todos (mgr (snd (exec now c w))))"
proof (cases c)
  case (Add tsk prio due)
  then show ?thesis using assms(1,2) by (simp add: add_todo_todos)
next
  case (Remove i)
  then show ?thesis using assms(1) by (simp add: remove_todo_list_all)
next
  case (Complete i)
  then show ?thesis using assms(1,3) by (simp add: complete_todo_def mutate_todo_list_all)
next
  case (Uncomplete i)
  then show ?thesis using assms(1,4) by (simp add: uncomplete_todo_def mutate_todo_list_all)
next
  case (Update i tsk prio due)
  then show ?thesis using assms(1,5) by (simp add: update_todo_def mutate_todo_list_all)
qed

lemma apply_update_fields:
  "item_id (apply_update tsk prio due t) = item_id t"
  "completed (apply_update tsk prio due t) = completed t"
  "completed_at (apply_update tsk prio due t) = completed_at t"
  "created_at (apply_update tsk prio due t) = created_at t"
  by (simp_all add: apply_update_def Let_def split: option.splits)

lemma apply_update_due:
  "due_date (apply_update tsk prio due t) = (case due of None \<Rightarrow> due_date t | Some d \<Rightarrow> Some d)"
  by (simp add: apply_update_def Let_def split: option.splits)

lemma apply_update_task:
  "task (apply_update tsk prio due t) = (if truthy tsk then the tsk else task t)"
  by (simp add: apply_update_def truthy_def Let_def split: option.splits)

lemma apply_update_priority:
  "priority (apply_update tsk prio due t) = priority t \<or>
   priority (apply_update tsk prio due t) \<in> set valid_priorities"
  by (simp add: apply_update_def Let_def split: option.splits)

lemma exec_consistent: "all_consistent w \<Longrightarrow> all_consistent (snd (exec now c w))"
  unfolding all_consistent_def
  by (rule exec_list_all) (simp_all add: consistent_def apply_update_fields)

lemma exec_valid:
  "list_all (\<lambda>t. priority t \<in> set valid_priorities) (todos (mgr w)) \<Longrightarrow>
   list_all (\<lambda>t. priority t \<in> set valid_priorities) (todos (mgr (snd (exec now c w))))"
proof (rule exec_list_all)
  fix t :: todo_item and tsk prio due
  assume "priority t \<in> set valid_priorities"
  then show "priority (apply_update tsk prio due t) \<in> set valid_priorities"
    using apply_update_priority [of tsk prio due t] by auto
qed (simp_all add: valid_priorities_def)

lemma run_invariant:
  assumes "\<And>now c w. I w \<Longrightarrow> I (snd (exec now c w))"
  shows "I w \<Longrightarrow> I (snd (run es w))"
proof (induction es arbitrary: w)
  case Nil
  then show ?case by simp
next
  case (Cons e es)
  obtain now c where e: "e = (now, c)" by (cases e)
  have "I (snd (exec now c w))" using assms Cons.prems by blast
  then have "I (snd (run es (snd (exec now c w))))" by (rule Cons.IH)
  then show ?case by (simp only: e run_Cons snd_conv)
qed

lemma run_consistent: "all_consistent w \<Longrightarrow> all_consistent (snd (run es w))"
  by (rule run_invariant [where I = all_consistent]) (rule exec_consistent)

lemma initial_simps:
  "todos (mgr (initial d)) = []" "next_id (mgr (initial d)) = 1"
  by (simp_all add: initial_def)

subsection \<open>The counter and the ids it hands out\<close>

lemma exec_next_id:
  "next_id (mgr (snd (exec now c w))) =
     (case c of Add _ _ _ \<Rightarrow> next_id (mgr w) + 1 | _ \<Rightarrow> next_id (mgr w))"
  by (cases c)
     (simp_all add: add_todo_result next_id_remove next_id_mutate
        complete_todo_def uncomplete_todo_def update_todo_def)

lemma exec_outcome:
  "fst (exec now c w) = NewId i \<Longrightarrow>
     i = next_id (mgr w) \<and> next_id (mgr (snd (exec now c w))) = i + 1"
  by (cases c) (simp_all add: add_todo_result)

lemma exec_mono: "next_id (mgr w) \<le> next_id (mgr (snd (exec now c w)))"
  by (simp add: exec_next_id split: command.splits)

lemma run_mono: "next_id (mgr w) \<le> next_id (mgr (snd (run es w)))"
proof (induction es arbitrary: w)
  case Nil
  show ?case by simp
next
  case (Cons e es)
  obtain now c where e: "e = (now, c)" by (cases e)
  have "next_id (mgr w) \<le> next_id (mgr (snd (exec now c w)))" by (rule exec_mono)
  also have "\<dots> \<le> next_id (mgr (snd (run es (snd (exec now c w)))))" by (rule Cons.IH)
  finally show ?case by (simp only: e run_Cons snd_conv)
qed

lemma run_ids_bounds:
  "i \<in> set (added_ids (fst (run es w))) \<Longrightarrow> next_id (mgr w) \<le> i"
proof (induction es arbitrary: w)
  case Nil
  then show ?case by simp
next
  case (Cons e es)
  obtain now c where e: "e = (now, c)" by (cases e)
  obtain r w1 where x: "exec now c w = (r, w1)" by (cases "exec now c w")
  obtain rs w2 where y: "run es w1 = (rs, w2)" by (cases "run es w1")
  have m: "next_id (mgr w) \<le> next_id (mgr w1)" using exec_mono [of w now c] x by simp
  from Cons.prems have "i \<in> set (added_ids (r # rs))" by (simp add: e x y)
  then consider "r = NewId i" | "i \<in> set (added_ids rs)" by (cases r) auto
  then show ?case
  proof cases
    case 1
    then show ?thesis using exec_outcome [of now c w i] x by simp
  next
    case 2
    then have "next_id (mgr w1) \<le> i" using Cons.IH [of w1] y by simp
    then show ?thesis using m by simp
  qed
qed

lemma run_ids_sorted: "sorted_wrt (<) (added_ids (fst (run es w)))"
proof (induction es arbitrary: w)
  case Nil
  show ?case by simp
next
  case (Cons e es)
  obtain now c where e: "e = (now, c)" by (cases e)
  obtain r w1 where x: "exec now c w = (r, w1)" by (cases "exec now c w")
  obtain rs w2 where y: "run es w1 = (rs, w2)" by (cases "run es w1")
  have ih: "sorted_wrt (<) (added_ids rs)" using Cons.IH [of w1] y by simp
  show ?case
  proof (cases r)
    case (NewId i)
    then have "next_id (mgr w1) = i + 1" using exec_outcome [of now c w i] x by simp
    then have "\<forall>j \<in> set (added_ids rs). i < j"
      using run_ids_bounds [of _ es w1] y by fastforce
    then show ?thesis using ih NewId by (simp add: e x y)
  next
    case (Found b)
    then show ?thesis using ih by (simp add: e x y)
  qed
qed

text \<open>
  Claim C1. Whatever the store a sequence of add, remove, complete, uncomplete and update
  commands starts from (the initial store in particular), the ids returned by its
  successive add commands are strictly increasing, hence no id is handed out twice,
  removals in between or not; and no command, and no sequence of commands, lowers
  \<open>next_id\<close>.
\<close>

theorem added_ids_strictly_increasing:
  "sorted_wrt (<) (added_ids (fst (run es w)))
   \<and> distinct (added_ids (fst (run es w)))
   \<and> next_id (mgr w) \<le> next_id (mgr (snd (exec now c w)))
   \<and> next_id (mgr w) \<le> next_id (mgr (snd (run es w)))"
proof -
  have s: "sorted_wrt (<) (added_ids (fst (run es w)))" by (rule run_ids_sorted)
  then have "distinct (added_ids (fst (run es w)))" by (simp add: strict_sorted_iff)
  with s show ?thesis using exec_mono [of w now c] run_mono [of w es] by simp
qed

subsection \<open>Facts about the test data and about runs from the initial store\<close>

lemma lower_eval:
  "lower (str ''low'') = str ''low''" "lower (str ''medium'') = str ''medium''" "lower (str ''high'') = str ''high''"
  "lower (str ''HIGH'') = str ''high''"
  by code_simp+

lemma run_valid:
  "list_all (\<lambda>t. priority t \<in> set valid_priorities) (todos (mgr (snd (run es (initial d)))))"
  by (rule run_invariant [where I = "\<lambda>w. list_all (\<lambda>t. priority t \<in> set valid_priorities) (todos (mgr w))"])
     (simp_all add: exec_valid initial_simps)

lemma example_find:
  "find_todo 3 (todos (mgr example_world)) = Some (example_item 3 (str ''medium'') False)"
  "find_todo 7 (todos (mgr example_world)) = None"
  "all_consistent example_world"
  by (simp_all add: example_world_def example_item_def find_todo_def all_consistent_def consistent_def)

subsection \<open>Completion state\<close>

text \<open>
  Claim C3. A record has a completion time exactly when it is completed, after every
  command: each of add, remove, complete, uncomplete and update keeps the equivalence for
  every record of the store, so it holds in every store reached from the initial one;
  complete sets \<open>completed\<close> and a completion time on the record it finds, and uncomplete
  clears both.
\<close>

theorem completed_at_iff_completed:
  "(all_consistent w \<longrightarrow> all_consistent (snd (exec now c w)))
   \<and> all_consistent (snd (run es (initial d)))
   \<and> (find_todo i (todos (mgr w)) = Some t \<longrightarrow>
        fst (complete_todo w i now)
        \<and> find_todo i (todos (mgr (snd (complete_todo w i now)))) =
            Some (t\<lparr>completed := True, completed_at := Some now\<rparr>)
        \<and> fst (uncomplete_todo w i)
        \<and> find_todo i (todos (mgr (snd (uncomplete_todo w i)))) =
            Some (t\<lparr>completed := False, completed_at := None\<rparr>))"
proof -
  have "all_consistent (initial d)" by (simp add: all_consistent_def initial_simps)
  then have r: "all_consistent (snd (run es (initial d)))" by (rule run_consistent)
  have m: "find_todo i (todos (mgr w)) = Some t \<Longrightarrow>
      fst (mutate_todo g w i) \<and> find_todo i (todos (mgr (snd (mutate_todo g w i)))) = Some (g t)"
    if "item_id (g t) = item_id t" for g
    using that by (simp add: mutate_todo_found)
  show ?thesis
    using r exec_consistent [of w now c]
      m [of "\<lambda>t. t\<lparr>completed := True, completed_at := Some now\<rparr>"]
      m [of "\<lambda>t. t\<lparr>completed := False, completed_at := None\<rparr>"]
    by (simp add: complete_todo_def uncomplete_todo_def)
qed

text \<open>An instance: completing record 3 of the example store.\<close>

theorem completed_at_iff_completed_witness:
  "all_consistent example_world
   \<and> all_consistent (snd (exec (str ''2024-03-01 10:00:00'') (Complete 3) example_world))
   \<and> find_todo 3 (todos (mgr example_world)) = Some (example_item 3 (str ''medium'') False)
   \<and> fst (complete_todo example_world 3 (str ''2024-03-01 10:00:00''))
   \<and> find_todo 3 (todos (mgr (snd (complete_todo example_world 3 (str ''2024-03-01 10:00:00''))))) =
       Some ((example_item 3 (str ''medium'') False)
               \<lparr>completed := True, completed_at := Some (str ''2024-03-01 10:00:00'')\<rparr>)"
  using completed_at_iff_completed [of example_world "str ''2024-03-01 10:00:00''" "Complete 3" "[]"
      None 3 "example_item 3 (str ''medium'') False"]
  by (simp add: example_find)

subsection \<open>Commands on an id that is not in the store\<close>

text \<open>
  Claim C6. For an id that no record of the collection has, remove, complete, uncomplete
  and update each return false and leave the collection, \<open>next_id\<close>, the file and the
  number of writes as they were. None of the four has a path that raises.
\<close>

theorem missing_id_reports_false:
  "Some i \<notin> item_id ` set (todos (mgr w)) \<Longrightarrow>
     remove_todo w i = (False, w)
     \<and> complete_todo w i now = (False, w)
     \<and> uncomplete_todo w i = (False, w)
     \<and> update_todo w i tsk prio due = (False, w)"
  by (simp add: find_todo_None [symmetric] remove_todo_def remove_first_None mutate_todo_absent
      complete_todo_def uncomplete_todo_def update_todo_def)

text \<open>An instance: id 7 in the example store, whose ids are 1 to 4.\<close>

theorem missing_id_reports_false_witness:
  "Some 7 \<notin> item_id ` set (todos (mgr example_world))
   \<and> remove_todo example_world 7 = (False, example_world)
   \<and> complete_todo example_world 7 (str ''2024-03-01 10:00:00'') = (False, example_world)
   \<and> uncomplete_todo example_world 7 = (False, example_world)
   \<and> update_todo example_world 7 (Some (str ''x'')) (Some (str ''low'')) (Some (str ''2024-05-05'')) =
        (False, example_world)"
proof -
  have h: "Some 7 \<notin> item_id ` set (todos (mgr example_world))"
    by (simp add: example_world_def example_item_def)
  show ?thesis
    using h missing_id_reports_false [OF h, of "str ''2024-03-01 10:00:00''" "Some (str ''x'')" "Some (str ''low'')" "Some (str ''2024-05-05'')"]
    by simp
qed

subsection \<open>The priority stored by add\<close>

text \<open>
  Claim C7. Given a priority that is not one of low, medium and high, add stores medium;
  given one of the three it stores that one. So the record add appends always has one of
  the three priorities, and so has every record of every store reached from the initial
  one.
\<close>

theorem add_todo_coerces_priority:
  "(prio \<notin> set valid_priorities \<longrightarrow>
      priority (last (todos (mgr (snd (add_todo w tsk prio due now))))) = str ''medium'')
   \<and> (prio \<in> set valid_priorities \<longrightarrow>
      priority (last (todos (mgr (snd (add_todo w tsk prio due now))))) = prio)
   \<and> priority (last (todos (mgr (snd (add_todo w tsk prio due now))))) \<in> set valid_priorities
   \<and> butlast (todos (mgr (snd (add_todo w tsk prio due now)))) = todos (mgr w)
   \<and> list_all (\<lambda>t. priority t \<in> set valid_priorities) (todos (mgr (snd (run es (initial d)))))"
  using run_valid [of es d]
  by (simp add: add_todo_todos) (simp add: valid_priorities_def)

text \<open>Instances: an unknown word, and a known word in the wrong case.\<close>

theorem add_todo_coerces_priority_witness:
  "str ''URGENT'' \<notin> set valid_priorities
   \<and> priority (last (todos (mgr (snd (add_todo example_world (str ''x'') (str ''URGENT'') None (str ''2024-03-01 10:00:00'')))))) = str ''medium''
   \<and> str ''High'' \<notin> set valid_priorities
   \<and> priority (last (todos (mgr (snd (add_todo example_world (str ''x'') (str ''High'') None (str ''2024-03-01 10:00:00'')))))) = str ''medium''"
  using add_todo_coerces_priority [of "str ''URGENT''" example_world "str ''x''" None "str ''2024-03-01 10:00:00''" "[]" None]
        add_todo_coerces_priority [of "str ''High''" example_world "str ''x''" None "str ''2024-03-01 10:00:00''" "[]" None]
  by (simp add: valid_priorities_def)

subsection \<open>Updates that supply nothing\<close>

text \<open>
  Claim C9. For a record of the store, update on its id with description, priority and
  due date all absent returns true, leaves the manager (every field of every record, and
  the counter) unchanged, and still writes the file.
\<close>

theorem update_without_fields:
  "find_todo i (todos (mgr w)) = Some t \<Longrightarrow>
     fst (update_todo w i None None None)
     \<and> mgr (snd (update_todo w i None None None)) = mgr w
     \<and> disk (snd (update_todo w i None None None)) =
         Some (Document (dump_load (save_data (mgr w))))
     \<and> writes (snd (update_todo w i None None None)) = Suc (writes w)"
proof -
  assume f: "find_todo i (todos (mgr w)) = Some t"
  have g: "apply_update None None None = (\<lambda>t. t)"
    by (rule ext) (simp add: apply_update_def)
  obtain ts' where m: "mutate_first (\<lambda>t. t) i (todos (mgr w)) = Some ts'"
    using mutate_first_Some [OF f] by blast
  then have "ts' = todos (mgr w)" by (rule mutate_first_id) simp
  with m show ?thesis
    by (simp add: update_todo_def g mutate_todo_def save_todos_def)
qed

text \<open>An instance: record 3 of the example store, which has no file yet.\<close>

theorem update_without_fields_witness:
  "find_todo 3 (todos (mgr example_world)) = Some (example_item 3 (str ''medium'') False)
   \<and> fst (update_todo example_world 3 None None None)
   \<and> mgr (snd (update_todo example_world 3 None None None)) = mgr example_world
   \<and> disk example_world = None
   \<and> disk (snd (update_todo example_world 3 None None None)) =
       Some (Document (dump_load (save_data (mgr example_world))))
   \<and> writes (snd (update_todo example_world 3 None None None)) = 1"
  using update_without_fields [of 3 example_world "example_item 3 (str ''medium'') False"]
  by (simp add: example_find) (simp add: example_world_def)

text \<open>
  Claim C10. An update whose description is the empty string does what the same update
  without a description does; for a record of the store it returns true and leaves the
  description of that record as it was.
\<close>

theorem update_empty_description:
  "update_todo w i (Some []) prio due = update_todo w i None prio due
   \<and> (find_todo i (todos (mgr w)) = Some t \<longrightarrow>
        fst (update_todo w i (Some []) prio due)
        \<and> (\<exists>t'. find_todo i (todos (mgr (snd (update_todo w i (Some []) prio due)))) = Some t'
                \<and> task t' = task t))"
proof -
  have e: "apply_update (Some []) prio due = apply_update None prio due"
    by (rule ext) (simp add: apply_update_def)
  have "fst (update_todo w i (Some []) prio due)
        \<and> find_todo i (todos (mgr (snd (update_todo w i (Some []) prio due)))) =
            Some (apply_update (Some []) prio due t)"
    if "find_todo i (todos (mgr w)) = Some t"
    unfolding update_todo_def using that by (rule mutate_todo_found) (simp add: apply_update_fields)
  moreover have "task (apply_update (Some []) prio due t) = task t"
    by (simp add: apply_update_task truthy_def)
  ultimately show ?thesis by (simp add: update_todo_def e)
qed

text \<open>An instance: an update of record 3 with an empty description and a new priority.\<close>

theorem update_empty_description_witness:
  "find_todo 3 (todos (mgr example_world)) = Some (example_item 3 (str ''medium'') False)
   \<and> fst (update_todo example_world 3 (Some []) (Some (str ''low'')) None)
   \<and> (\<exists>t'. find_todo 3 (todos (mgr (snd (update_todo example_world 3 (Some []) (Some (str ''low'')) None)))) = Some t'
          \<and> task t' = task (example_item 3 (str ''medium'') False))"
proof -
  have h: "find_todo 3 (todos (mgr example_world)) = Some (example_item 3 (str ''medium'') False)"
    by (rule example_find)
  show ?thesis
    using h update_empty_description
      [of example_world 3 "Some (str ''low'')" None "example_item 3 (str ''medium'') False"]
    by blast
qed

subsection \<open>The due date under update\<close>

lemma update_todo_found:
  assumes "find_todo i (todos (mgr w)) = Some t"
  shows "fst (update_todo w i tsk prio due)"
    and "find_todo i (todos (mgr (snd (update_todo w i tsk prio due)))) =
           Some (apply_update tsk prio due t)"
  using mutate_todo_found [OF assms, of "apply_update tsk prio due"]
  by (simp_all add: update_todo_def apply_update_fields)

lemma dated_find: "find_todo 1 (todos (mgr dated_world)) = Some dated_item"
  by (simp add: dated_world_def dated_item_def find_todo_def)

text \<open>
  The store holding one record due on 2024-01-01: no update of that record, whatever its
  three arguments, leaves it without a due date. Omitting the due date keeps the date, and
  the empty string is stored as a due date like any other string.
\<close>

theorem update_never_clears_due_date:
  "\<not> (\<exists>tsk prio due t'.
        find_todo 1 (todos (mgr (snd (update_todo dated_world 1 tsk prio due)))) = Some t'
        \<and> due_date t' = None)
   \<and> map due_date (todos (mgr (snd (update_todo dated_world 1 None None None)))) =
       [Some (str ''2024-01-01'')]
   \<and> map due_date (todos (mgr (snd (update_todo dated_world 1 None None (Some (str '''')))))) =
       [Some (str '''')]"
proof -
  have "due_date (apply_update tsk prio due dated_item) \<noteq> None" for tsk prio due
    by (simp add: apply_update_due dated_item_def split: option.splits)
  then have "\<not> (\<exists>tsk prio due t'.
        find_todo 1 (todos (mgr (snd (update_todo dated_world 1 tsk prio due)))) = Some t'
        \<and> due_date t' = None)"
    by (auto simp: update_todo_found(2) [OF dated_find])
  moreover have
    "map due_date (todos (mgr (snd (update_todo dated_world 1 None None due)))) =
       [due_date (apply_update None None due dated_item)]" for due
    by (simp add: update_todo_def mutate_todo_def dated_world_def dated_item_def)
  ultimately show ?thesis
    by (simp add: apply_update_due) (simp add: dated_item_def)
qed

text \<open>
  Claim C8, as the code has it. For a record of the store, update returns true and leaves
  the record with its old due date when the due date argument is absent, and with the
  string given when one is given, the empty string included. A record that has a due date
  has one after every update: update has no argument that sets the due date to null.
\<close>

theorem update_due_date:
  "find_todo i (todos (mgr w)) = Some t \<Longrightarrow>
     fst (update_todo w i tsk prio due)
     \<and> find_todo i (todos (mgr (snd (update_todo w i tsk prio due)))) =
         Some (apply_update tsk prio due t)
     \<and> due_date (apply_update tsk prio due t) =
         (case due of None \<Rightarrow> due_date t | Some d \<Rightarrow> Some d)
     \<and> (due_date t \<noteq> None \<longrightarrow> due_date (apply_update tsk prio due t) \<noteq> None)"
  by (simp add: update_todo_found apply_update_due split: option.splits)

text \<open>Instances: the dated record, updated with nothing and with an empty due date.\<close>

theorem update_due_date_witness:
  "find_todo 1 (todos (mgr dated_world)) = Some dated_item
   \<and> due_date dated_item = Some (str ''2024-01-01'')
   \<and> due_date (apply_update None None None dated_item) = Some (str ''2024-01-01'')
   \<and> find_todo 1 (todos (mgr (snd (update_todo dated_world 1 None None (Some (str '''')))))) =
         Some (apply_update None None (Some (str '''')) dated_item)
   \<and> due_date (apply_update None None (Some (str '''')) dated_item) = Some (str '''')"
  using update_due_date [OF dated_find, of None None None]
        update_due_date [OF dated_find, of None None "Some (str '''')"]
  by (simp add: dated_find) (simp add: dated_item_def)

subsection \<open>The order of the listing\<close>

lemma list_key_le: "(list_key a \<le> list_key b) = (list_rank a \<le> list_rank b)"
  by (auto simp: list_key_def list_rank_def priority_rank_def)

lemma list_key_eq: "(list_key a = list_key b) = (list_rank a = list_rank b)"
  by (auto simp: list_key_def list_rank_def priority_rank_def)

lemma sorted_rank_sort_key: "sorted (map list_rank (sort_key list_key xs))"
proof -
  have "sorted (map list_key (sort_key list_key xs))" by (rule sorted_sort_key)
  then have "sorted_wrt (\<lambda>a b. list_key a \<le> list_key b) (sort_key list_key xs)"
    by (simp add: sorted_map)
  then have "sorted_wrt (\<lambda>a b. list_rank a \<le> list_rank b) (sort_key list_key xs)"
    by (simp add: list_key_le)
  then show ?thesis by (simp add: sorted_map)
qed

lemma stable_rank_sort_key:
  "filter (\<lambda>t. list_rank t = list_rank x) (sort_key list_key xs) =
   filter (\<lambda>t. list_rank t = list_rank x) xs"
  using sort_key_stable [of list_key "list_key x" xs] by (simp add: list_key_eq)

text \<open>
  Claim C5. For every store and every pair of filter arguments, the list \<^verbatim>\<open>get_todos\<close>
  returns is sorted by rank (pending before completed, then high before medium before
  low); the records that rank equal to any given record come in the order they have in
  the filtered store, which is a subsequence of the store and so has them in their stored
  order; and it holds the records that pass the filters, each as often as the store does. On the example store
  [low pending, high completed, medium pending, high pending] the result is
  [high pending, medium pending, low pending, high completed].
\<close>

theorem get_todos_order:
  "sorted (map list_rank (get_todos show_completed priority_filter m))
   \<and> filter (\<lambda>t. list_rank t = list_rank x) (get_todos show_completed priority_filter m) =
       filter (\<lambda>t. list_rank t = list_rank x) (filtered_todos show_completed priority_filter m)
   \<and> subseq (filtered_todos show_completed priority_filter m) (todos m)
   \<and> mset (get_todos show_completed priority_filter m) =
       mset (filtered_todos show_completed priority_filter m)
   \<and> get_todos True None (mgr example_world) =
       [example_item 4 (str ''high'') False, example_item 3 (str ''medium'') False,
        example_item 1 (str ''low'') False, example_item 2 (str ''high'') True]"
proof -
  have "get_todos True None (mgr example_world) =
       [example_item 4 (str ''high'') False, example_item 3 (str ''medium'') False,
        example_item 1 (str ''low'') False, example_item 2 (str ''high'') True]"
    by (simp add: get_todos_def filtered_todos_def example_world_def list_key_def
        example_item_def sort_key_def)
  moreover have "subseq (filtered_todos show_completed priority_filter m) (todos m)"
    by (auto simp: filtered_todos_def Let_def split: option.splits
        intro: subseq_order.trans [OF subseq_filter_left subseq_filter_left])
  ultimately show ?thesis
    by (simp add: get_todos_def sorted_rank_sort_key stable_rank_sort_key)
qed

subsection \<open>Saving and loading\<close>

lemma join_surrogates_plain:
  "list_all (\<lambda>c. \<not> is_high_surrogate c) cs \<Longrightarrow> join_surrogates cs = cs"
  by (induction cs rule: join_surrogates.induct) simp_all

lemma join_surrogates_str [simp]: "join_surrogates (str s) = str s"
proof (rule join_surrogates_plain)
  have "c < 256" if "c \<in> set (str s)" for c using that by (auto simp: str_def)
  then show "list_all (\<lambda>c. \<not> is_high_surrogate c) (str s)"
    by (fastforce simp: list_all_iff is_high_surrogate_def)
qed

lemma join_surrogates_valid: "p \<in> set valid_priorities \<Longrightarrow> join_surrogates p = p"
  by (auto simp: valid_priorities_def)

lemma join_surrogates_fixed: "(join_surrogates s = s) = (\<not> has_surrogate_pair s)"
  by (induction s rule: join_surrogates.induct)
     (auto simp: is_high_surrogate_def is_low_surrogate_def)

lemma joined_item_fixed:
  "priority t \<in> set valid_priorities \<Longrightarrow> (joined_item t = t) = pair_free t"
  by (cases t)
     (auto simp: joined_item_def pair_free_def join_surrogates_valid join_surrogates_fixed
        split: option.splits)

lemma joined_fixed:
  "list_all (\<lambda>t. priority t \<in> set valid_priorities) (todos m) \<Longrightarrow>
     (joined m = m) = list_all pair_free (todos m)"
proof -
  assume v: "list_all (\<lambda>t. priority t \<in> set valid_priorities) (todos m)"
  have "(map joined_item ts = ts) = list_all pair_free ts"
    if "list_all (\<lambda>t. priority t \<in> set valid_priorities) ts" for ts
    using that by (induction ts) (simp_all add: joined_item_fixed)
  with v show ?thesis by (cases m) (simp add: joined_def)
qed

lemma dump_load_to_dict: "dump_load (to_dict t) = to_dict (joined_item t)"
  by (simp add: to_dict_def joined_item_def json_of_int_option_def json_of_str_option_def
      split: option.splits)

lemma dump_load_save_data: "dump_load (save_data m) = save_data (joined m)"
  by (simp add: save_data_def joined_def dump_load_to_dict)

lemma from_dict_to_dict:
  "lower (priority t) = priority t \<Longrightarrow> from_dict (to_dict t) = Inr (as_loaded_item t)"
  by (simp add: from_dict_def to_dict_def subscript_def sbind_def str_lower_def as_loaded_item_def)

lemma smap_from_dict:
  "list_all (\<lambda>t. lower (priority t) = priority t) ts \<Longrightarrow>
     smap from_dict (map to_dict ts) = Inr (map as_loaded_item ts)"
  by (induction ts) (simp_all add: from_dict_to_dict sbind_def)

lemma load_save_data:
  "list_all (\<lambda>t. lower (priority t) = priority t) (todos m) \<Longrightarrow>
     load_todos (Some (Document (save_data m))) m0 = Inr (as_loaded m)"
  by (simp add: load_todos_def save_data_def dict_get_def iterate_def
      smap_from_dict sbind_def as_loaded_def)

lemma load_save:
  assumes "list_all (\<lambda>t. priority t \<in> set valid_priorities) (todos (mgr w))"
  shows "load_todos (disk (save_todos w)) m0 = Inr (as_loaded (joined (mgr w)))"
proof -
  have "list_all (\<lambda>t. lower (priority t) = priority t) (todos (joined (mgr w)))"
    using assms
    by (simp add: joined_def joined_item_def list_all_iff join_surrogates_valid lower_valid)
  then have "load_todos (Some (Document (save_data (joined (mgr w))))) m0 =
               Inr (as_loaded (joined (mgr w)))"
    by (rule load_save_data)
  then show ?thesis by (simp add: save_todos_def dump_load_save_data)
qed

lemma json_of_int_option_inj: "(json_of_int_option a = json_of_int_option b) = (a = b)"
  by (simp add: json_of_int_option_def split: option.splits)

lemma json_of_str_option_inj: "(json_of_str_option a = json_of_str_option b) = (a = b)"
  by (simp add: json_of_str_option_def split: option.splits)

lemma as_loaded_item_inj: "(as_loaded_item a = as_loaded_item b) = (a = b)"
  by (cases a; cases b)
     (auto simp: as_loaded_item_def json_of_int_option_inj json_of_str_option_inj)

lemma as_loaded_inj: "(as_loaded a = as_loaded b) = (a = b)"
proof -
  have "inj as_loaded_item" by (rule injI) (simp add: as_loaded_item_inj)
  then have "(map as_loaded_item xs = map as_loaded_item ys) = (xs = ys)" for xs ys
    by (simp add: inj_map_eq_map)
  then show ?thesis by (cases a; cases b) (simp add: as_loaded_def)
qed

text \<open>
  The store after one add from the initial store, with a description made of the two
  surrogates U+D83D U+DE00: saved and loaded, the description is the one code point
  U+1F600, so the manager loaded is not the manager saved.
\<close>

theorem save_load_joins_surrogate_pair:
  "load_todos
     (disk (save_todos (snd (run [(str ''2024-03-01 10:00:00'', Add [55357, 56832] (str ''low'') None)]
                                 (initial None)))))
     \<lparr>l_todos = [], l_next_id = JInt 1\<rparr>
   \<noteq> Inr (as_loaded (mgr (snd (run [(str ''2024-03-01 10:00:00'', Add [55357, 56832] (str ''low'') None)]
                                   (initial None)))))
   \<and> map task (todos (mgr (snd (run [(str ''2024-03-01 10:00:00'', Add [55357, 56832] (str ''low'') None)]
                                    (initial None))))) = [[55357, 56832]]
   \<and> load_todos
     (disk (save_todos (snd (run [(str ''2024-03-01 10:00:00'', Add [55357, 56832] (str ''low'') None)]
                                 (initial None)))))
     \<lparr>l_todos = [], l_next_id = JInt 1\<rparr>
   = Inr \<lparr>l_todos = [\<lparr>l_id = JInt 1, l_task = JStr [128512], l_completed = JBool False,
                        l_priority = str ''low'', l_created_at = JStr (str ''2024-03-01 10:00:00''),
                        l_due_date = JNull, l_completed_at = JNull\<rparr>],
           l_next_id = JInt 2\<rparr>"
proof -
  let ?w = "snd (run [(str ''2024-03-01 10:00:00'', Add [55357, 56832] (str ''low'') None)]
                    (initial None))"
  have m: "mgr ?w =
      \<lparr>todos = [\<lparr>item_id = Some 1, task = [55357, 56832], completed = False,
                 priority = str ''low'', created_at = str ''2024-03-01 10:00:00'',
                 due_date = None, completed_at = None\<rparr>], next_id = 2\<rparr>"
    by (simp add: add_todo_def Let_def TodoItem_def initial_def valid_priorities_def lower_valid)
  have "list_all (\<lambda>t. priority t \<in> set valid_priorities) (todos (mgr ?w))"
    by (rule run_valid)
  then have l: "load_todos (disk (save_todos ?w)) \<lparr>l_todos = [], l_next_id = JInt 1\<rparr> =
      Inr (as_loaded (joined (mgr ?w)))"
    by (rule load_save)
  have j: "joined (mgr ?w) =
      \<lparr>todos = [\<lparr>item_id = Some 1, task = [128512], completed = False,
                 priority = str ''low'', created_at = str ''2024-03-01 10:00:00'',
                 due_date = None, completed_at = None\<rparr>], next_id = 2\<rparr>"
    unfolding m
    by (simp add: joined_def joined_item_def is_high_surrogate_def is_low_surrogate_def)
  show ?thesis
    unfolding l j unfolding m
    by (simp add: as_loaded_def as_loaded_item_def json_of_int_option_def json_of_str_option_def)
qed

text \<open>
  Claim C4, as the code has it. For every store reached by commands from the initial
  store, saving and then loading gives back the store with the surrogate pairs of its
  strings joined. So it gives back the same records with the same fields in the same
  order, and the same \<open>next_id\<close>, exactly when every record of the store is pair free:
  the loaded manager is then the saved one, and two managers that load as the same are
  the same.
\<close>

theorem save_load_roundtrip:
  "load_todos (disk (save_todos (snd (run es (initial d))))) m0 =
       Inr (as_loaded (joined (mgr (snd (run es (initial d))))))
   \<and> (list_all pair_free (todos (mgr (snd (run es (initial d))))) \<longrightarrow>
        load_todos (disk (save_todos (snd (run es (initial d))))) m0 =
          Inr (as_loaded (mgr (snd (run es (initial d))))))
   \<and> (load_todos (disk (save_todos (snd (run es (initial d))))) m0 =
          Inr (as_loaded (mgr (snd (run es (initial d)))))
        \<longrightarrow> list_all pair_free (todos (mgr (snd (run es (initial d))))))
   \<and> ((as_loaded m = as_loaded m') = (m = m'))"
proof -
  let ?w = "snd (run es (initial d))"
  have v: "list_all (\<lambda>t. priority t \<in> set valid_priorities) (todos (mgr ?w))"
    by (rule run_valid)
  have l: "load_todos (disk (save_todos ?w)) m0 = Inr (as_loaded (joined (mgr ?w)))"
    using v by (rule load_save)
  have "(joined (mgr ?w) = mgr ?w) = list_all pair_free (todos (mgr ?w))"
    using v by (rule joined_fixed)
  then show ?thesis unfolding l by (simp add: as_loaded_inj)
qed

text \<open>
  An instance: from the initial store, an add whose description is one code point above
  U+FFFF followed by a lone surrogate, a second add, a completion and a removal; then
  save, and load over a manager that held something else.
\<close>

theorem save_load_roundtrip_witness:
  "list_all pair_free
     (todos (mgr (snd (run [(str ''2024-03-01 10:00:00'', Add [128512, 55357] (str ''HIGH'') (Some (str ''2024-01-01''))),
                            (str ''2024-03-01 10:00:01'', Add (str ''Call mom'') (str ''low'') None),
                            (str ''2024-03-01 10:00:02'', Complete 2),
                            (str ''2024-03-01 10:00:03'', Remove 1)] (initial None)))))
   \<and> load_todos
       (disk (save_todos (snd (run [(str ''2024-03-01 10:00:00'', Add [128512, 55357] (str ''HIGH'') (Some (str ''2024-01-01''))),
                                    (str ''2024-03-01 10:00:01'', Add (str ''Call mom'') (str ''low'') None),
                                    (str ''2024-03-01 10:00:02'', Complete 2),
                                    (str ''2024-03-01 10:00:03'', Remove 1)] (initial None)))))
       \<lparr>l_todos = [], l_next_id = JNull\<rparr> =
     Inr (as_loaded (mgr (snd (run [(str ''2024-03-01 10:00:00'', Add [128512, 55357] (str ''HIGH'') (Some (str ''2024-01-01''))),
                                    (str ''2024-03-01 10:00:01'', Add (str ''Call mom'') (str ''low'') None),
                                    (str ''2024-03-01 10:00:02'', Complete 2),
                                    (str ''2024-03-01 10:00:03'', Remove 1)] (initial None)))))"
proof -
  let ?es = "[(str ''2024-03-01 10:00:00'', Add [128512, 55357] (str ''HIGH'') (Some (str ''2024-01-01''))),
              (str ''2024-03-01 10:00:01'', Add (str ''Call mom'') (str ''low'') None),
              (str ''2024-03-01 10:00:02'', Complete 2),
              (str ''2024-03-01 10:00:03'', Remove 1)]"
  have "todos (mgr (snd (run ?es (initial None)))) =
      [\<lparr>item_id = Some 2, task = str ''Call mom'', completed = True, priority = str ''low'',
        created_at = str ''2024-03-01 10:00:01'', due_date = None,
        completed_at = Some (str ''2024-03-01 10:00:02'')\<rparr>]"
    by (simp add: add_todo_def Let_def TodoItem_def initial_def valid_priorities_def lower_valid
        complete_todo_def mutate_todo_def remove_todo_def)
  then have h: "list_all pair_free (todos (mgr (snd (run ?es (initial None)))))"
    by (simp add: pair_free_def join_surrogates_fixed [symmetric])
  show ?thesis
    using h save_load_roundtrip [of ?es None "\<lparr>l_todos = [], l_next_id = JNull\<rparr>"]
    by blast
qed

subsection \<open>Loading a file that is not a saved store\<close>

text \<open>
  Without a file, and with a file that is not JSON, the manager starts empty with the
  counter at 1.
\<close>

lemma load_todos_recovers:
  "TodoManager None = Inr \<lparr>l_todos = [], l_next_id = JInt 1\<rparr>"
  "TodoManager (Some NotJson) = Inr \<lparr>l_todos = [], l_next_id = JInt 1\<rparr>"
  "load_todos (Some NotJson) m0 = Inr \<lparr>l_todos = [], l_next_id = JInt 1\<rparr>"
  by (simp_all add: TodoManager_def load_todos_def)

text \<open>
  Claim C2 fails on the code. A file that is JSON but not a saved store makes
  \<^verbatim>\<open>load_todos\<close> raise, since its handler names \<^verbatim>\<open>JSONDecodeError\<close> and
  \<^verbatim>\<open>FileNotFoundError\<close> only: a record without its keys gives \<^verbatim>\<open>KeyError\<close>, a top-level
  list gives \<^verbatim>\<open>AttributeError\<close>, and a \<open>todos\<close> entry that is a number gives
  \<^verbatim>\<open>TypeError\<close>.
\<close>

theorem load_todos_wrong_structure:
  "TodoManager (Some (Document (JObj [(str ''todos'', JList [JObj []])]))) = Inl (KeyError (str ''task''))
   \<and> TodoManager (Some (Document (JList []))) = Inl AttributeError
   \<and> TodoManager (Some (Document (JObj [(str ''todos'', JInt 5)]))) = Inl TypeError"
  by (simp add: TodoManager_def load_todos_def dict_get_def iterate_def sbind_def
      from_dict_def subscript_def)

end
